theory Spec2Isabelle
  imports Main
begin

section \<open>The configuration modules\<close>

text \<open>
  The repository holds two configuration modules and one Markdown document. Each
  configuration module is a single default-export expression built from string
  literals, array literals, object literals and calls of imported functions. The
  expression is embedded as the source writes it: object literals keep their keys in
  source order, and a call names the local identifier it calls.
\<close>

datatype expr =
    Str string
  | Arr "expr list"
  | Obj "(string \<times> expr) list"
  | Call string "expr list"

text \<open>
  The import table of a module: local identifier and the module specifier it comes
  from. \<^verbatim>\<open>require\<close> is not imported; the style configuration calls it as a global.
\<close>

definition astro_imports :: "(string \<times> string) list" where
  "astro_imports =
     [(''defineConfig'', ''astro/config''),
      (''tailwind'', ''@astrojs/tailwind'')]"

text \<open>\<^verbatim>\<open>astro.config.mjs\<close>: the object literal passed to \<^verbatim>\<open>defineConfig\<close>.\<close>

definition site_options :: expr where
  "site_options =
     Obj [(''site'', Str ''https://lab176344.github.io''),
          (''base'', Str ''/''),
          (''integrations'', Arr [Call ''tailwind'' []])]"

text \<open>\<^verbatim>\<open>astro.config.mjs\<close>: the default export.\<close>

definition astro_config :: expr where
  "astro_config = Call ''defineConfig'' [site_options]"

text \<open>\<^verbatim>\<open>tailwind.config.mjs\<close>: the default export.\<close>

definition tailwind_config :: expr where
  \<open>tailwind_config =
     Obj [(''content'',
             Arr [Str ''./src/**/*.{astro,html,js,jsx,md,mdx,svelte,ts,tsx,vue}'']),
          (''theme'',
             Obj [(''extend'',
                Obj [(''colors'',
                       Obj [(''tui'',
                          Obj [(''bg'', Str ''#1a1b26''),
                               (''fg'', Str ''#a9b1d6''),
                               (''accent'', Str ''#9ece6a''),
                               (''dim'', Str ''#565f89''),
                               (''border'', Str ''#414868''),
                               (''selection'', Str ''#33467c'')])]),
                     (''fontFamily'',
                       Obj [(''mono'',
                          Arr [Str ''"JetBrains Mono"'', Str ''"Fira Code"'',
                               Str ''monospace''])])])]),
          (''plugins'', Arr [Call ''require'' [Str ''@tailwindcss/typography'']])]\<close>

subsection \<open>Reading an expression\<close>

text \<open>Property access on an object literal; anything else has no properties.\<close>

fun field :: "string \<Rightarrow> expr \<Rightarrow> expr option" where
  "field k (Obj kvs) = map_of kvs k"
| "field k _ = None"

fun keys :: "expr \<Rightarrow> string list" where
  "keys (Obj kvs) = map fst kvs"
| "keys _ = []"

fun elements :: "expr \<Rightarrow> expr list option" where
  "elements (Arr xs) = Some xs"
| "elements _ = None"

fun str_of :: "expr \<Rightarrow> string option" where
  "str_of (Str s) = Some s"
| "str_of _ = None"

text \<open>Following a path of property names from the root of an expression.\<close>

fun at_path :: "string list \<Rightarrow> expr \<Rightarrow> expr option" where
  "at_path [] e = Some e"
| "at_path (k # ks) e = (case field k e of None \<Rightarrow> None | Some e' \<Rightarrow> at_path ks e')"

text \<open>All elements of a list of options, or nothing when one is missing.\<close>

fun those_of :: "'a option list \<Rightarrow> 'a list option" where
  "those_of [] = Some []"
| "those_of (None # xs) = None"
| "those_of (Some x # xs) = (case those_of xs of None \<Rightarrow> None | Some ys \<Rightarrow> Some (x # ys))"

definition strings_of :: "expr \<Rightarrow> string list option" where
  "strings_of e = (case elements e of None \<Rightarrow> None | Some xs \<Rightarrow> those_of (map str_of xs))"

subsection \<open>The tui palette and the mono font stack\<close>

definition tui_palette :: "(string \<times> expr) list" where
  "tui_palette =
     (case at_path [''theme'', ''extend'', ''colors'', ''tui''] tailwind_config of
        Some (Obj kvs) \<Rightarrow> kvs
      | _ \<Rightarrow> [])"

definition mono_stack :: "string list" where
  "mono_stack =
     (case at_path [''theme'', ''extend'', ''fontFamily'', ''mono''] tailwind_config of
        None \<Rightarrow> []
      | Some e \<Rightarrow> (case strings_of e of None \<Rightarrow> [] | Some xs \<Rightarrow> xs))"

definition lower_hex_digit :: "char \<Rightarrow> bool" where
  "lower_hex_digit c = (c \<in> set ''0123456789abcdef'')"

text \<open>A colour of the form \<^verbatim>\<open>#rrggbb\<close> with lowercase digits: seven characters.\<close>

fun hex_color :: "expr \<Rightarrow> bool" where
  "hex_color (Str s) =
     (case s of
        [] \<Rightarrow> False
      | c # ds \<Rightarrow> c = CHR ''#'' \<and> length ds = 6 \<and> list_all lower_hex_digit ds)"
| "hex_color _ = False"

section \<open>The content document\<close>

text \<open>
  \<^verbatim>\<open>src/content/blog/big-query/index.md\<close>, line by line, as the bytes of the file
  (the file is UTF-8; a character outside ASCII is its bytes). The last line has no
  line terminator. The file is written here in two parts: its lines 1 to 6, and its
  lines 7 to 334.
\<close>

definition index_md_head :: "string list" where
  \<open>index_md_head =
     [''---'',
      ''title: "A Guide to BigQuery Optimisation: Performance, Cost, and Architecture"'',
      ''description: "An overview of BigQuery architecture, storage strategies, and query optimisation techniques based on real-world case studies."'',
      ''pubDate: "2026-02-13"'',
      ''tags: ["big-query", "gcp", "data-engineering", "sql-optimisation"]'',
      ''---'']\<close>

definition index_md_text :: "string list" where
  \<open>index_md_text =
     ['''',
      ''BigQuery is a tool for processing large datasets, but its performance and'',
      ''cost depend on how it is used. Without an understanding of its architecture,'',
      ''queries can be slow and expensive.'',
      '' Unlike traditional relational databases where performance is often'',
      ''measured by execution time, BigQuery demands a shift in focus: **you are billed'',
      ''for the data you scan, not the time you spend scanning it.**'',
      '''',
      ''We are focusing only on the on-demand pay-as-you-go model, as it is the most common and relevant for optimisation.'',
      '''',
      ''## 1. Understanding the Architecture: Storage vs. Compute'',
      '''',
      ''To optimise BigQuery, you must first understand how it separates storage from'',
      ''compute. Your data lives in **Colossus**, Google'' @ [CHR 0xE2, CHR 0x80, CHR 0x99] @ ''s distributed file system,'',
      ''stored in a proprietary columnar format called **Capacitor**. When you execute a'',
      ''query, the **Dremel** engine allocates compute slots to process that data.'',
      '''',
      ''The connection between these two layers is a high-bandwidth network.'',
      '' While this network ensures fast data movement from storage to compute,'',
      ''data movement *between* compute slots (shuffling) during complex'',
      ''operations like joins or aggregations is a common performance bottleneck.'',
      ''The initial load bottleneck is usually the sheer volume of data being'',
      ''pulled from storage.'',
      '''',
      ''### The Billing Model'',
      '''',
      ''* **On-Demand:** Costs depend on the amount of data scanned.'',
      ''* **Storage:** Costs depend on the volume of data stored, with lower rates for'',
      ''  data that has not been modified for 90 days.'',
      '''',
      ''**Key Takeaway:** A 5-second query isn\'t necessarily a cheap query. Always watch'',
      ''the "bytes processed" metric rather than the clock.'',
      '''',
      ''---'',
      '''',
      ''## 2. Data Modelling: Denormalisation and Data Types'',
      '''',
      ''In traditional SQL (Postgres, MySQL), normalisation is the standard approach. In'',
      ''BigQuery, **denormalisation** is often the path to efficiency.'',
      '''',
      ''### Denormalisation vs. Joins'',
      '''',
      ''Joins in BigQuery require "shuffling"'' @ [CHR 0xE2, CHR 0x80, CHR 0x94] @ ''moving data between slots to find matching'',
      ''keys. This is compute-intensive and expensive. By pre-joining data into flat or'',
      ''nested structures, you reduce the need for shuffles.'',
      '''',
      ''### Choosing Appropriate Data Types'',
      '''',
      ''Every byte counts in a columnar store. Using `INT64` (8 bytes) instead of a'',
      ''`STRING` representation can save significant costs over billions of rows.'',
      '''',
      ''* **STRING:** 2 bytes + UTF-8 length.'',
      ''* **NUMERIC:** 16 bytes (use only for high-precision financial data).'',
      ''* **DATE/TIMESTAMP:** 8 bytes.'',
      '''',
      ''```sql'',
      ''-- Efficient Table Definition'',
      ''CREATE TABLE analytics.events ('',
      ''  user_id INT64,             -- 8 bytes'',
      ''  event_type STRING,         -- 2 bytes + length'',
      ''  event_date DATE,           -- 8 bytes'',
      ''  metadata JSON              -- Use sparsely for performance'',
      '')'',
      ''CLUSTER BY user_id;'',
      ''```'',
      '''',
      ''### Primary and Foreign Keys'',
      '''',
      ''In traditional databases, primary keys are essential for performance (indexing)'',
      ''and data integrity. BigQuery\'s approach is different:'',
      '''',
      ''* **Optional and Non-Enforced:** Primary and foreign keys are optional. If'',
      ''  defined, they are **not enforced** by BigQuery during data ingestion. You are'',
      ''  responsible for ensuring data uniqueness and referential integrity.'',
      ''* **Performance Optimisation:** While not enforced, defining these keys can'',
      ''  improve query performance. The query optimiser uses the constraint information'',
      ''  to apply better join strategies (such as eliminating unnecessary shuffles) and'',
      ''  improving join ordering.'',
      ''* **Cost of Enforcement:** Because BigQuery is a distributed system, enforcing'',
      ''  uniqueness at scale would require significant cross-slot coordination, which'',
      ''  would slow down data loading and increase costs.'',
      '''',
      ''---'',
      '''',
      ''## 3. Storage Optimisation: Partitioning and Clustering'',
      '''',
      ''These are effective methods for reducing query costs.'',
      '''',
      ''### Partitioning'',
      '''',
      ''Partitioning divides your table into segments (usually by date). When you filter'',
      ''by the partition column, BigQuery "prunes" the partitions, ignoring the data it'',
      ''doesn\'t need.'',
      '''',
      ''```sql'',
      ''-- Partitioning by day with a mandatory filter'',
      ''CREATE TABLE analytics.logs ('',
      ''  timestamp TIMESTAMP,'',
      ''  message STRING'',
      '')'',
      ''PARTITION BY TIMESTAMP_TRUNC(timestamp, DAY)'',
      ''OPTIONS ('',
      ''  require_partition_filter = true'',
      '');'',
      ''```'',
      '''',
      ''### Clustering'',
      '''',
      ''Clustering sorts the data within partitions based on up to four columns. This is'',
      ''particularly effective for columns with high cardinality (like `user_id` or'',
      ''`country_code`).'',
      '''',
      ''**Note:** The order of clustering columns matters.'',
      ''column, then the second, and so on. Your `WHERE` clauses should follow this'',
      ''order for maximum effect.'',
      '''',
      ''---'',
      '''',
      ''## 4. Advanced Data Structures: Arrays and Structs'',
      '''',
      ''BigQuery allows you to store related data in a single row using `ARRAY` and'',
      ''`STRUCT`. This significantly reduces row counts and avoids expensive joins.'',
      '''',
      ''### The "Global IoT Sensor" Case Study'',
      '''',
      ''Analysis of a high-frequency IoT sensor dataset illustrates this. By'',
      ''restructuring a flat table of **1.2 billion sensor readings (450 GB)** into a'',
      ''nested structure where readings were grouped into hourly arrays per device, the'',
      ''dataset was reduced to **60 million rows (280 GB)**'' @ [CHR 0xE2, CHR 0x80, CHR 0x94] @ ''a 95% reduction in row count'',
      ''and a 38% reduction in storage size.'',
      '''',
      ''#### Example: Normalised vs. Nested'',
      '''',
      ''```sql'',
      ''-- Normalised (Flat): Requires a JOIN and shuffles data for every reading.'',
      ''SELECT '',
      ''  d.device_name, '',
      ''  s.reading '',
      ''FROM `project.dataset.sensors` s'',
      ''JOIN `project.dataset.devices` d ON s.device_id = d.device_id;'',
      '''',
      ''-- Nested (BigQuery): Data is co-located. No JOIN or shuffle required.'',
      ''SELECT '',
      ''  device_name, '',
      ''  r.reading '',
      ''FROM `project.dataset.device_readings`,'',
      ''UNNEST(readings) AS r;'',
      ''```'',
      '''',
      ''### Querying Nested Data'',
      '''',
      ''Use the `UNNEST` keyword to flatten arrays back into a relational format for'',
      ''analysis.'',
      '''',
      ''```sql'',
      ''-- Querying a nested user activity table'',
      ''SELECT'',
      ''  user_id,'',
      ''  session.page_path,'',
      ''  session.duration'',
      ''FROM `project.dataset.user_activity`,'',
      ''UNNEST(sessions) AS session'',
      ''WHERE session.date = \'2024-01-01\';'',
      ''```'',
      '''',
      ''---'',
      '''',
      ''## 5. Modern Search Capabilities: Search Indexes'',
      '''',
      ''For logs or text-heavy data, standard `LIKE \'%term%\'` filters are slow and'',
      ''expensive. BigQuery\'s **Search Indexes** allow for efficient pattern'',
      ''matching.'',
      '''',
      ''```sql'',
      ''-- Creating a Search Index'',
      ''CREATE SEARCH INDEX idx_logs'',
      ''ON analytics.server_logs(ALL COLUMNS);'',
      '''',
      ''-- Using the SEARCH function'',
      ''SELECT *'',
      ''FROM analytics.server_logs'',
      ''WHERE SEARCH(server_logs, \'error "critical failure"\');'',
      ''```'',
      '''',
      ''---'',
      '''',
      ''## 6. Advanced SQL Techniques: Window Functions'',
      '''',
      ''Window functions allow you to perform calculations across a set of rows related'',
      ''to the current row, without collapsing them into a single output row.'',
      '''',
      ''### Key Window Functions'',
      '''',
      ''* **Ranking:** `ROW_NUMBER()`, `RANK()`, `DENSE_RANK()`.'',
      ''* **Analytical:** `LAG()`, `LEAD()` (comparing to previous/next rows).'',
      ''* **Aggregation:** `SUM() OVER()`, `AVG() OVER()`.'',
      '''',
      ''```sql'',
      ''-- Calculating a 7-day moving average of revenue'',
      ''SELECT'',
      ''  date,'',
      ''  revenue,'',
      ''  AVG(revenue) OVER ('',
      ''    ORDER BY date'',
      ''    ROWS BETWEEN 6 PRECEDING AND CURRENT ROW'',
      ''  ) AS moving_avg_7d'',
      ''FROM sales_table;'',
      ''```'',
      '''',
      ''### Optimisation: `EXISTS` and `IN` for Semi-Joins'',
      '''',
      ''In BigQuery, using `EXISTS` or `IN` with a subquery is an optimisation that'',
      ''the engine translates into a **Semi-Join** or **Anti-Join**.'',
      '''',
      ''* **Efficiency:** A standard `JOIN` can produce duplicate rows if the join key is'',
      ''  not unique, requiring a `DISTINCT` operation. `EXISTS` and `IN` stop processing'',
      ''  a match as soon as the first one is found, reducing **Slot Time** and'',
      ''  **Bytes Shuffled**.'',
      ''* **Performance:** Use `EXISTS` for correlated subqueries and `IN` for'',
      ''  uncorrelated subqueries or static lists.'',
      ''* **Anti-Joins:** `NOT EXISTS` is more reliable for anti-joins because it handles'',
      ''  `NULL` values differently than `NOT IN`. If a `NOT IN` subquery returns a'',
      ''  `NULL`, the query will return zero results.'',
      '''',
      ''#### Example: Semi-Join vs. Inner Join'',
      '''',
      ''```sql'',
      ''-- Standard Join: Might produce duplicate rows if a user has multiple orders,'',
      ''-- requiring an expensive DISTINCT.'',
      ''SELECT DISTINCT u.user_id, u.name'',
      ''FROM `project.dataset.users` u'',
      ''JOIN `project.dataset.orders` o ON u.user_id = o.user_id;'',
      '''',
      ''-- Optimised with EXISTS (Semi-Join): Stops as soon as the first order is found.'',
      ''-- More efficient for large datasets.'',
      ''SELECT u.user_id, u.name'',
      ''FROM `project.dataset.users` u'',
      ''WHERE EXISTS ('',
      ''  SELECT 1 FROM `project.dataset.orders` o WHERE o.user_id = u.user_id'',
      '');'',
      '''',
      ''-- Optimised with IN (Uncorrelated): Best for static lists or independent subqueries.'',
      ''SELECT user_id, name'',
      ''FROM `project.dataset.users`'',
      ''WHERE user_id IN (SELECT user_id FROM `project.dataset.orders`);'',
      ''```'',
      '''',
      ''---'',
      '''',
      ''## 7. Practical Performance Tuning: The Developer\'s Workflow'',
      '''',
      ''1. **Filter Early:** Apply `WHERE` clauses as close to the source as possible.'',
      ''2. **Select Only Needed Columns:** Avoid `SELECT *`. Every extra column adds to'',
      ''   the bytes scanned.'',
      ''3. **Aggregate Late:** Join small tables first, then aggregate.'',
      ''4. **Use CTEs for Clarity:** Common Table Expressions (CTEs) make your code more'',
      ''   readable, but remember that BigQuery does not "materialise" them'' @ [CHR 0xE2, CHR 0x80, CHR 0x94] @ ''using the'',
      ''   same CTE multiple times will result in multiple scans. Use temporary tables'',
      ''   for heavy intermediate results.'',
      '''',
      ''---'',
      '''',
      ''## 8. Analysing the Execution Graph: Identifying Bottlenecks'',
      '''',
      ''The execution graph provides a detailed view of how your query is processed. It'',
      ''shows how the **Dremel** engine breaks your SQL into multiple stages.'',
      '''',
      ''### Comparison of Execution Metrics'',
      '''',
      ''* **Slot Time:** The total compute resources consumed. High slot time relative to'',
      ''  execution time indicates high parallelism. Extremely high slot time with slow'',
      ''  performance can indicate inefficient operations like cross-joins.'',
      ''* **Wait Time (ms):** The time a stage waited for an available slot. High wait'',
      ''  times indicate that the project has reached its slot limit.'',
      ''* **Bytes Shuffled:** The amount of data moved between stages. Large shuffle'',
      ''  volumes are a bottleneck and can often be reduced through clustering or better'',
      ''  data modelling.'',
      ''* **Compute Time (Avg vs Max):** A large difference between Average and Maximum'',
      ''  compute time in a stage indicates **Data Skew**, where a small number of slots'',
      ''  process more data than others.'',
      '''',
      ''### Join Patterns in the Graph'',
      '''',
      ''BigQuery uses two strategies for joins:'',
      '''',
      ''1. **Broadcast Join:** For joins with small tables (usually < 10MB), BigQuery'',
      ''   sends the small table to every slot processing the large table. This avoids'',
      ''   a shuffle.'',
      ''2. **Hash Join:** For joins between large tables, BigQuery shuffles both tables'',
      ''   based on the join key.'',
      '''',
      ''### Common Bottlenecks and Solutions'',
      '''',
      ''<!-- markdownlint-disable MD013 -->'',
      ''| Symptom | Probable Cause | Solution |'',
      ''| :--- | :--- | :--- |'',
      ''| **High Slot Time** | Complex `REGEXP`, UDFs, or large cross-joins. | Simplify logic; use `SEARCH` for text; ensure join keys are efficient. |'',
      ''| **High Wait Time** | Slot contention or hitting project limits. | Switch to Capacity pricing (Reservations) or optimise query to use fewer slots. |'',
      ''| **High Bytes Shuffled** | Joining large tables on non-clustered columns. | Cluster both tables on the join keys; use nested/repeated fields to avoid joins. |'',
      ''| **Data Skew** | Join keys are unevenly distributed (e.g., many NULLs). | Filter out NULLs before joining; distribute frequently occurring keys using a "salting" technique. |'',
      ''| **Exploding Joins** | **Low Cardinality** on join keys (Many-to-Many). | Check join logic; ensure you aren\'t creating a Cartesian product inadvertently. |'',
      ''<!-- markdownlint-enable MD013 -->'',
      '''',
      ''---'',
      '''',
      ''## Final Thoughts'',
      '''',
      ''Efficiency in BigQuery involves understanding the separation of storage and'',
      ''compute. By using denormalisation, partitioning, and clustering, you can'',
      ''reduce the amount of data processed and the resources consumed.'',
      '''',
      ''Always keep an eye on the execution graph. It tells you more about your query\'s'',
      ''health than the execution timer ever will.'',
      '''',
      ''### Citations and Further Reading'',
      '''',
      ''* [Google Cloud: BigQuery Explained - Storage Overview](https://cloud.google.com/blog/products/data-analytics/bigquery-explained-storage-overview)'',
      ''* [Official BigQuery Pricing Guide](https://cloud.google.com/bigquery/pricing)'',
      ''* [A Guide to Using Window Functions](https://medium.com/data-science/a-guide-to-using-window-functions-4b2768f589d9)'',
      ''* [Mastering Arrays in BigQuery (2024)](https://medium.com/@thomas.ellyatt/mastering-arrays-in-bigquery-2024-e62612b15c30)'',
      ''* [A Guide to Search Indexes in BigQuery](https://medium.com/@thomas.ellyatt/a-guide-to-search-indexes-in-bigquery-3d2b586e10fb)'',
      ''* [BigQuery Efficiency: How I Reduced Table Size by 35%](https://towardsdatascience.com/bigquery-efficiency-how-i-reduced-my-table-size-by-35-5-and-rows-by-93-1-dc8b9b7276ff/)'',
      ''* [Clustering for Improved Performance (2024)](https://medium.com/@thomas.ellyatt/clustering-for-improved-performance-in-bigquery-2024-55c9285828dd)'',
      ''* [Why Partitioning Tables is Essential (2024)](https://medium.com/@thomas.ellyatt/why-partitioning-tables-is-essential-in-bigquery-2024-6e771c9fc288)'',
      ''* [Ultimate Guide to Saving Time and Money with BigQuery](https://medium.com/@thomas.ellyatt/ultimate-guide-to-saving-time-and-money-with-bigquery-f2cddc1af1ad)'',
      ''* [Burn Data Rather Than Money with BigQuery: The Definitive Guide](https://towardsdatascience.com/burn-data-rather-than-money-with-bigquery-the-definitive-guide-1b50a9fdf096/)'',
      ''* [Query Optimisation Best Practices for Data Analysts](https://medium.com/@sheerwolff/query-optimization-in-bigquery-best-practices-for-data-analysts-9aba6cf68fea)'',
      ''* [Why Your 5-Second BigQuery Query Isn'' @ [CHR 0xE2, CHR 0x80, CHR 0x99] @ ''t Cheap](https://luminousmen.substack.com/p/why-your-5-second-bigquery-query)'']\<close>

definition index_md :: "string list" where
  "index_md = index_md_head @ index_md_text"

subsection \<open>Characters, splitting and trimming\<close>

definition is_digit :: "char \<Rightarrow> bool" where
  "is_digit c = (c \<in> set ''0123456789'')"

definition is_space :: "char \<Rightarrow> bool" where
  "is_space c = (c = CHR '' '' \<or> c = CHR 0x09)"

definition trim :: "string \<Rightarrow> string" where
  "trim s = rev (dropWhile is_space (rev (dropWhile is_space s)))"

text \<open>Splitting at every occurrence of a separator; the result is never empty.\<close>

fun split_on :: "char \<Rightarrow> string \<Rightarrow> string list" where
  "split_on d [] = [[]]"
| "split_on d (c # cs) =
     (if c = d then [] # split_on d cs
      else (case split_on d cs of [] \<Rightarrow> [[c]] | p # ps \<Rightarrow> (c # p) # ps))"

subsection \<open>Front-matter\<close>

text \<open>
  The front-matter is the block between a first line \<^verbatim>\<open>---\<close> and the next such
  line; the body is everything after it.
\<close>

fun until_delim :: "string list \<Rightarrow> (string list \<times> string list) option" where
  "until_delim [] = None"
| "until_delim (l # ls) =
     (if l = ''---'' then Some ([], ls)
      else (case until_delim ls of
              None \<Rightarrow> None
            | Some (front, rest) \<Rightarrow> Some (l # front, rest)))"

definition split_document :: "string list \<Rightarrow> (string list \<times> string list) option" where
  "split_document ls =
     (case ls of
        [] \<Rightarrow> None
      | l # rest \<Rightarrow> if l = ''---'' then until_delim rest else None)"

text \<open>A front-matter line is a key, a colon and a value.\<close>

definition parse_field :: "string \<Rightarrow> (string \<times> string) option" where
  "parse_field l =
     (case dropWhile (\<lambda>c. c \<noteq> CHR '':'') l of
        [] \<Rightarrow> None
      | _ # v \<Rightarrow> Some (takeWhile (\<lambda>c. c \<noteq> CHR '':'') l, trim v))"

text \<open>
  A double-quoted scalar without escapes: the text between the quotes. Anything else is
  not a string.
\<close>

definition unquote :: "string \<Rightarrow> string option" where
  "unquote s =
     (case s of
        [] \<Rightarrow> None
      | q # r \<Rightarrow>
          (case rev r of
             [] \<Rightarrow> None
           | q' # inner \<Rightarrow>
               if q = CHR 0x22 \<and> q' = CHR 0x22
                  \<and> CHR 0x22 \<notin> set inner \<and> CHR 0x5C \<notin> set inner
               then Some (rev inner) else None))"

text \<open>A flow sequence of double-quoted scalars: \<^verbatim>\<open>["a", "b"]\<close>.\<close>

definition parse_flow_seq :: "string \<Rightarrow> string list option" where
  "parse_flow_seq s =
     (case s of
        [] \<Rightarrow> None
      | b # r \<Rightarrow>
          (case rev r of
             [] \<Rightarrow> None
           | b' # inner \<Rightarrow>
               if b = CHR ''['' \<and> b' = CHR '']''
               then (if trim inner = [] then Some []
                     else those_of (map (\<lambda>x. unquote (trim x)) (split_on CHR '','' (rev inner))))
               else None))"

subsection \<open>Calendar dates\<close>

type_synonym date = "nat \<times> nat \<times> nat"

definition digit_val :: "char \<Rightarrow> nat" where
  "digit_val c = of_char c - 48"

definition number_of :: "string \<Rightarrow> nat option" where
  "number_of s =
     (if s \<noteq> [] \<and> list_all is_digit s
      then Some (foldl (\<lambda>n c. 10 * n + digit_val c) 0 s) else None)"

definition leap_year :: "nat \<Rightarrow> bool" where
  "leap_year y =
     (if y mod 400 = 0 then True else if y mod 100 = 0 then False else y mod 4 = 0)"

definition days_in_month :: "nat \<Rightarrow> nat \<Rightarrow> nat" where
  "days_in_month y m =
     (if m \<in> set [1, 3, 5, 7, 8, 10, 12] then 31
      else if m \<in> set [4, 6, 9, 11] then 30
      else if m = 2 then (if leap_year y then 29 else 28)
      else 0)"

fun valid_date :: "date \<Rightarrow> bool" where
  "valid_date (y, m, d) = (1 \<le> m \<and> m \<le> 12 \<and> 1 \<le> d \<and> d \<le> days_in_month y m)"

text \<open>
  An ISO 8601 calendar date \<^verbatim>\<open>YYYY-MM-DD\<close>: four, two and two digits, and a day that
  exists in that month of that year.
\<close>

definition parse_date :: "string \<Rightarrow> date option" where
  "parse_date s =
     (case split_on CHR ''-'' s of
        [ys, ms, ds] \<Rightarrow>
          (if length ys = 4 \<and> length ms = 2 \<and> length ds = 2
           then (case number_of ys of
                   None \<Rightarrow> None
                 | Some y \<Rightarrow>
                     (case number_of ms of
                        None \<Rightarrow> None
                      | Some m \<Rightarrow>
                          (case number_of ds of
                             None \<Rightarrow> None
                           | Some d \<Rightarrow> if valid_date (y, m, d) then Some (y, m, d) else None)))
           else None)
      | _ \<Rightarrow> None)"

subsection \<open>The typed front-matter\<close>

record front_matter =
  title :: string
  description :: string
  pubDate :: date
  tags :: "string list"

definition parse_front_matter :: "string list \<Rightarrow> front_matter option" where
  "parse_front_matter ls =
     (case split_document ls of
        None \<Rightarrow> None
      | Some (front, rest) \<Rightarrow>
          (case those_of (map parse_field front) of
             None \<Rightarrow> None
           | Some kvs \<Rightarrow>
               (case Option.bind (map_of kvs ''title'') unquote of
                  None \<Rightarrow> None
                | Some t \<Rightarrow>
               (case Option.bind (map_of kvs ''description'') unquote of
                  None \<Rightarrow> None
                | Some d \<Rightarrow>
               (case Option.bind (Option.bind (map_of kvs ''pubDate'') unquote) parse_date of
                  None \<Rightarrow> None
                | Some p \<Rightarrow>
               (case Option.bind (map_of kvs ''tags'') parse_flow_seq of
                  None \<Rightarrow> None
                | Some g \<Rightarrow>
                    Some \<lparr>title = t, description = d, pubDate = p, tags = g\<rparr>))))))"

definition body :: "string list \<Rightarrow> string list" where
  "body ls = (case split_document ls of None \<Rightarrow> ls | Some (front, rest) \<Rightarrow> rest)"

subsection \<open>Fenced code blocks\<close>

text \<open>
  A fence line is at most three spaces of indentation and then three or more backticks.
  An opening fence may carry an info string without backticks; a closing fence has at
  least as many backticks as the fence it closes and nothing after them but blanks.
  What a line can be is read off the line alone: the number of its backticks, whether
  it may open a block, and whether it may close one.
\<close>

definition indent :: "string \<Rightarrow> nat" where
  "indent l = length (takeWhile (\<lambda>c. c = CHR '' '') l)"

definition unindent :: "string \<Rightarrow> string" where
  "unindent l = dropWhile (\<lambda>c. c = CHR '' '') l"

definition backticks :: "string \<Rightarrow> nat" where
  "backticks l = length (takeWhile (\<lambda>c. c = CHR 0x60) l)"

datatype fence_mark = NoFence | Fence nat bool bool

definition fence_mark :: "string \<Rightarrow> fence_mark" where
  "fence_mark l =
     (if indent l \<le> 3 \<and> 3 \<le> backticks (unindent l)
      then Fence (backticks (unindent l))
             (CHR 0x60 \<notin> set (drop (backticks (unindent l)) (unindent l)))
             (list_all is_space (drop (backticks (unindent l)) (unindent l)))
      else NoFence)"

datatype fence_state = Prose | Code nat

datatype line_kind = Text | Opening | Closing | CodeLine

text \<open>
  One line of the scan: the kind of a line read in a state, and the state after it. A
  fence that cannot open a block is text; inside a block, a fence that cannot close it
  is a line of code.
\<close>

fun fence_kind :: "fence_state \<Rightarrow> fence_mark \<Rightarrow> line_kind" where
  "fence_kind Prose NoFence = Text"
| "fence_kind Prose (Fence n may_open may_close) = (if may_open then Opening else Text)"
| "fence_kind (Code m) NoFence = CodeLine"
| "fence_kind (Code m) (Fence n may_open may_close) =
     (if may_close \<and> m \<le> n then Closing else CodeLine)"

fun fence_next :: "fence_state \<Rightarrow> fence_mark \<Rightarrow> fence_state" where
  "fence_next Prose NoFence = Prose"
| "fence_next Prose (Fence n may_open may_close) = (if may_open then Code n else Prose)"
| "fence_next (Code m) NoFence = Code m"
| "fence_next (Code m) (Fence n may_open may_close) =
     (if may_close \<and> m \<le> n then Prose else Code m)"

fun kinds_from :: "fence_state \<Rightarrow> fence_mark list \<Rightarrow> line_kind list" where
  "kinds_from st [] = []"
| "kinds_from st (m # ms) = fence_kind st m # kinds_from (fence_next st m) ms"

definition line_kinds :: "string list \<Rightarrow> line_kind list" where
  "line_kinds ls = kinds_from Prose (map fence_mark ls)"

text \<open>The fence delimiter lines, in order: each opens or closes a block.\<close>

definition fence_events :: "string list \<Rightarrow> line_kind list" where
  "fence_events ls = filter (\<lambda>k. k = Opening \<or> k = Closing) (line_kinds ls)"

text \<open>Every opened block is closed when the scan ends outside a block.\<close>

definition fences_balanced :: "string list \<Rightarrow> bool" where
  "fences_balanced ls = (foldl fence_next Prose (map fence_mark ls) = Prose)"

subsection \<open>Tables\<close>

definition is_table_line :: "string \<Rightarrow> bool" where
  "is_table_line l = (case unindent l of [] \<Rightarrow> False | c # _ \<Rightarrow> c = CHR ''|'')"

text \<open>Splitting a row at every pipe that is not escaped by a backslash.\<close>

fun split_cells :: "string \<Rightarrow> string \<Rightarrow> string list" where
  "split_cells cur [] = [rev cur]"
| "split_cells cur [c] = (if c = CHR ''|'' then [rev cur, []] else [rev (c # cur)])"
| "split_cells cur (c # d # cs) =
     (if c = CHR 0x5C then split_cells (d # c # cur) cs
      else if c = CHR ''|'' then rev cur # split_cells [] (d # cs)
      else split_cells (c # cur) (d # cs))"

text \<open>The cells of a row: the leading and the trailing pipe delimit no cell.\<close>

definition row_cells :: "string \<Rightarrow> string list" where
  "row_cells l =
     (let ps = split_cells [] (trim l);
          ps1 = (case ps of [] \<Rightarrow> [] | p # r \<Rightarrow> if p = [] then r else ps);
          ps2 = (case rev ps1 of [] \<Rightarrow> [] | p # r \<Rightarrow> if p = [] then rev r else ps1)
      in map trim ps2)"

text \<open>
  The cells of a table row: a line outside every code block that starts with a pipe.
  Any other line is no row.
\<close>

fun table_row :: "line_kind \<times> string \<Rightarrow> string list option" where
  "table_row (k, l) = (if k = Text \<and> is_table_line l then Some (row_cells l) else None)"

text \<open>The maximal runs of consecutive table rows.\<close>

fun table_blocks ::
  "string list list \<Rightarrow> string list option list \<Rightarrow> string list list list" where
  "table_blocks cur [] = (if cur = [] then [] else [rev cur])"
| "table_blocks cur (None # rs) = (if cur = [] then [] else [rev cur]) @ table_blocks [] rs"
| "table_blocks cur (Some r # rs) = table_blocks (r # cur) rs"

definition tables :: "string list \<Rightarrow> string list list list" where
  "tables ls = table_blocks [] (map table_row (zip (line_kinds ls) ls))"

text \<open>A delimiter cell: dashes, with an optional colon at either end.\<close>

definition delimiter_cell :: "string \<Rightarrow> bool" where
  "delimiter_cell c =
     (let c1 = (case c of [] \<Rightarrow> [] | x # r \<Rightarrow> if x = CHR '':'' then r else c);
          c2 = (case rev c1 of [] \<Rightarrow> [] | x # r \<Rightarrow> if x = CHR '':'' then r else rev c1)
      in c2 \<noteq> [] \<and> list_all (\<lambda>x. x = CHR ''-'') c2)"

text \<open>
  A table is a header row, a delimiter row with as many cells, each a delimiter cell,
  and body rows with as many cells as the header.
\<close>

definition valid_table :: "string list list \<Rightarrow> bool" where
  "valid_table block =
     (case block of
        h # d # rows \<Rightarrow>
          0 < length h
          \<and> length d = length h
          \<and> list_all delimiter_cell d
          \<and> list_all (\<lambda>r. length r = length h) rows
      | _ \<Rightarrow> False)"

section \<open>Validity of the configured values\<close>

subsection \<open>URLs and paths\<close>

definition is_lower :: "char \<Rightarrow> bool" where
  "is_lower c = (c \<in> set ''abcdefghijklmnopqrstuvwxyz'')"

definition is_upper :: "char \<Rightarrow> bool" where
  "is_upper c = (c \<in> set ''ABCDEFGHIJKLMNOPQRSTUVWXYZ'')"

definition is_alpha :: "char \<Rightarrow> bool" where
  "is_alpha c = (is_lower c \<or> is_upper c)"

definition is_hex :: "char \<Rightarrow> bool" where
  "is_hex c = (c \<in> set ''0123456789abcdefABCDEF'')"

text \<open>RFC 3986: a scheme is a letter followed by letters, digits, plus, minus and dot.\<close>

definition valid_scheme :: "string \<Rightarrow> bool" where
  "valid_scheme s =
     (case s of
        [] \<Rightarrow> False
      | c # cs \<Rightarrow>
          is_alpha c \<and> list_all (\<lambda>x. is_alpha x \<or> is_digit x \<or> x \<in> set ''+-.'') cs)"

text \<open>
  A host name: labels separated by dots, each a non-empty run of letters, digits and
  hyphens that neither starts nor ends with a hyphen.
\<close>

definition valid_label :: "string \<Rightarrow> bool" where
  "valid_label l =
     (l \<noteq> [] \<and> list_all (\<lambda>x. is_alpha x \<or> is_digit x \<or> x = CHR ''-'') l
      \<and> take 1 l \<noteq> ''-'' \<and> take 1 (rev l) \<noteq> ''-'')"

definition valid_host :: "string \<Rightarrow> bool" where
  "valid_host h = list_all valid_label (split_on CHR ''.'' h)"

text \<open>An authority: a host name, and an optional port of digits after a colon.\<close>

definition valid_authority :: "string \<Rightarrow> bool" where
  "valid_authority a =
     (case split_on CHR '':'' a of
        [h] \<Rightarrow> valid_host h
      | [h, p] \<Rightarrow> valid_host h \<and> p \<noteq> [] \<and> list_all is_digit p
      | _ \<Rightarrow> False)"

text \<open>
  The characters of a path: the unreserved characters, the sub-delimiters, colon, at
  sign and slash of RFC 3986, and percent-encoded bytes.
\<close>

definition path_char :: "char \<Rightarrow> bool" where
  \<open>path_char c =
     (is_alpha c \<or> is_digit c \<or> c \<in> set ''-._~!$&()*+,;=:@/'' \<or> c = CHR 0x27)\<close>

fun valid_path_chars :: "string \<Rightarrow> bool" where
  "valid_path_chars [] = True"
| "valid_path_chars (c # cs) =
     (if c = CHR ''%''
      then (case cs of
              h1 # h2 # r \<Rightarrow> is_hex h1 \<and> is_hex h2 \<and> valid_path_chars r
            | _ \<Rightarrow> False)
      else path_char c \<and> valid_path_chars cs)"

text \<open>
  An absolute URL with an authority: scheme, \<^verbatim>\<open>://\<close>, authority, and a path that is
  empty or starts with a slash. URLs with a query or a fragment are not accepted.
\<close>

definition valid_absolute_url :: "string \<Rightarrow> bool" where
  "valid_absolute_url u =
     (valid_scheme (takeWhile (\<lambda>c. c \<noteq> CHR '':'') u)
      \<and> (case dropWhile (\<lambda>c. c \<noteq> CHR '':'') u of
            c1 # c2 # c3 # r \<Rightarrow>
              c2 = CHR ''/'' \<and> c3 = CHR ''/''
              \<and> valid_authority (takeWhile (\<lambda>c. c \<noteq> CHR ''/'') r)
              \<and> valid_path_chars (dropWhile (\<lambda>c. c \<noteq> CHR ''/'') r)
          | _ \<Rightarrow> False))"

text \<open>A path prefix: a path that starts with a slash.\<close>

definition valid_base_path :: "string \<Rightarrow> bool" where
  "valid_base_path p =
     (case p of [] \<Rightarrow> False | c # cs \<Rightarrow> c = CHR ''/'' \<and> valid_path_chars cs)"

definition siteURL :: "string option" where
  "siteURL = Option.bind (field ''site'' site_options) str_of"

definition basePath :: "string option" where
  "basePath = Option.bind (field ''base'' site_options) str_of"

subsection \<open>Glob patterns\<close>

text \<open>
  Within one path segment a star matches any run of characters; every other character
  of the pattern matches itself.
\<close>

fun wild_match :: "string \<Rightarrow> string \<Rightarrow> bool" where
  "wild_match [] s = (s = [])"
| "wild_match (p # ps) [] = (p = CHR ''*'' \<and> wild_match ps [])"
| "wild_match (p # ps) (c # cs) =
     (if p = CHR ''*'' then wild_match ps (c # cs) \<or> wild_match (p # ps) cs
      else p = c \<and> wild_match ps cs)"

text \<open>
  Segment by segment: a segment \<^verbatim>\<open>**\<close> matches any number of path segments, none
  included.
\<close>

fun segments_match :: "string list \<Rightarrow> string list \<Rightarrow> bool" where
  "segments_match [] fs = (fs = [])"
| "segments_match (p # ps) [] = (p = ''**'' \<and> segments_match ps [])"
| "segments_match (p # ps) (f # fs) =
     (if p = ''**'' then segments_match ps (f # fs) \<or> segments_match (p # ps) fs
      else wild_match p f \<and> segments_match ps fs)"

text \<open>
  Brace expansion: \<^verbatim>\<open>a{b,c}d\<close> stands for \<^verbatim>\<open>abd\<close> and \<^verbatim>\<open>acd\<close>. Groups are
  expanded from left to right; a group inside a group is not expanded.
\<close>

function brace_expand :: "string \<Rightarrow> string list" where
  "brace_expand p =
     (case dropWhile (\<lambda>c. c \<noteq> CHR ''{'') p of
        [] \<Rightarrow> [p]
      | _ # r \<Rightarrow>
          (case dropWhile (\<lambda>c. c \<noteq> CHR ''}'') r of
             [] \<Rightarrow> [p]
           | _ # suf \<Rightarrow>
               concat (map (\<lambda>a. map (\<lambda>s. takeWhile (\<lambda>c. c \<noteq> CHR ''{'') p @ a @ s)
                                  (brace_expand suf))
                        (split_on CHR '','' (takeWhile (\<lambda>c. c \<noteq> CHR ''}'') r)))))"
  by pat_completeness auto
termination
proof (relation "measure length")
  show "wf (measure length)" by simp
next
  fix p :: string and x r y suf a
  assume 1: "dropWhile (\<lambda>c. c \<noteq> CHR ''{'') p = x # r"
    and 2: "dropWhile (\<lambda>c. c \<noteq> CHR ''}'') r = y # suf"
  have "length (x # r) \<le> length p"
    using length_dropWhile_le [of "\<lambda>c. c \<noteq> CHR ''{''" p] 1 by simp
  moreover have "length (y # suf) \<le> length r"
    using length_dropWhile_le [of "\<lambda>c. c \<noteq> CHR ''}''" r] 2 by simp
  ultimately show "(suf, p) \<in> measure length" by simp
qed

text \<open>Patterns and paths are relative to the directory of the configuration file.\<close>

definition strip_dot_slash :: "string \<Rightarrow> string" where
  "strip_dot_slash p =
     (case p of
        c # d # r \<Rightarrow> if c = CHR ''.'' \<and> d = CHR ''/'' then r else p
      | _ \<Rightarrow> p)"

definition glob_match :: "string \<Rightarrow> string \<Rightarrow> bool" where
  "glob_match pat path =
     list_ex (\<lambda>q. segments_match (split_on CHR ''/'' (strip_dot_slash q))
                                 (split_on CHR ''/'' (strip_dot_slash path)))
             (brace_expand pat)"

text \<open>The extension of a file: what follows the last dot of its last segment.\<close>

definition extension :: "string \<Rightarrow> string" where
  "extension path =
     rev (takeWhile (\<lambda>c. c \<noteq> CHR ''.'' \<and> c \<noteq> CHR ''/'') (rev path))"

text \<open>The files of the repository, relative to its root.\<close>

definition repository_files :: "string list" where
  "repository_files =
     [''astro.config.mjs'',
      ''tailwind.config.mjs'',
      ''src/content/blog/big-query/index.md'']"

subsection \<open>The theme configuration record\<close>

record theme_config =
  contentGlobs :: "string list"
  colorTokens :: "string \<rightharpoonup> string"
  fontTokens :: "string \<rightharpoonup> string list"
  plugins :: "expr set"

text \<open>
  The entries of one colour: a colour value under its own name, or a palette whose
  colours are named palette, hyphen, colour, as the styling framework names them.
\<close>

fun color_entries :: "string \<times> expr \<Rightarrow> (string \<times> string) list option" where
  "color_entries (name, Str s) = Some [(name, s)]"
| "color_entries (name, Obj kvs) =
     those_of (map (\<lambda>(k, v). case v of Str s \<Rightarrow> Some (name @ ''-'' @ k, s) | _ \<Rightarrow> None) kvs)"
| "color_entries (name, _) = None"

fun font_entry :: "string \<times> expr \<Rightarrow> (string \<times> string list) option" where
  "font_entry (name, e) = (case strings_of e of None \<Rightarrow> None | Some xs \<Rightarrow> Some (name, xs))"

fun fields :: "expr \<Rightarrow> (string \<times> expr) list option" where
  "fields (Obj kvs) = Some kvs"
| "fields _ = None"

definition theme_of :: "expr \<Rightarrow> theme_config option" where
  "theme_of cfg =
     (case Option.bind (field ''content'' cfg) strings_of of
        None \<Rightarrow> None
      | Some globs \<Rightarrow>
     (case Option.bind (Option.bind (at_path [''theme'', ''extend'', ''colors''] cfg) fields)
             (\<lambda>kvs. those_of (map color_entries kvs)) of
        None \<Rightarrow> None
      | Some colors \<Rightarrow>
     (case Option.bind (Option.bind (at_path [''theme'', ''extend'', ''fontFamily''] cfg) fields)
             (\<lambda>kvs. those_of (map font_entry kvs)) of
        None \<Rightarrow> None
      | Some fonts \<Rightarrow>
     (case Option.bind (field ''plugins'' cfg) elements of
        None \<Rightarrow> None
      | Some ps \<Rightarrow>
          Some \<lparr>contentGlobs = globs, colorTokens = map_of (concat colors),
                fontTokens = map_of fonts, plugins = set ps\<rparr>))))"

text \<open>The content list of the style configuration.\<close>

definition content_globs :: "string list" where
  "content_globs = (case theme_of tailwind_config of None \<Rightarrow> [] | Some t \<Rightarrow> contentGlobs t)"

definition typography_plugin :: expr where
  "typography_plugin = Call ''require'' [Str ''@tailwindcss/typography'']"

section \<open>Evaluating a configuration module\<close>

text \<open>
  The value of an expression. The functions a module calls are not code of the
  repository: they are a parameter of the evaluation, and each may read and change the
  state of the build (of any type), which is threaded through the evaluation in source
  order. A value the external code owns is \<open>VExt\<close>.
\<close>

datatype val =
    VStr string
  | VArr "val list"
  | VObj "(string \<times> val) list"
  | VExt string

type_synonym 'st external = "string \<Rightarrow> val list \<Rightarrow> 'st \<Rightarrow> val \<times> 'st"

fun eval :: "'st external \<Rightarrow> expr \<Rightarrow> 'st \<Rightarrow> val \<times> 'st"
  and eval_list :: "'st external \<Rightarrow> expr list \<Rightarrow> 'st \<Rightarrow> val list \<times> 'st"
  and eval_fields :: "'st external \<Rightarrow> (string \<times> expr) list \<Rightarrow> 'st \<Rightarrow> (string \<times> val) list \<times> 'st"
where
  "eval f (Str s) st = (VStr s, st)"
| "eval f (Arr xs) st = (case eval_list f xs st of (vs, st') \<Rightarrow> (VArr vs, st'))"
| "eval f (Obj kvs) st = (case eval_fields f kvs st of (fs, st') \<Rightarrow> (VObj fs, st'))"
| "eval f (Call g args) st = (case eval_list f args st of (vs, st') \<Rightarrow> f g vs st')"
| "eval_list f [] st = ([], st)"
| "eval_list f (x # xs) st =
     (case eval f x st of
        (v, st') \<Rightarrow> (case eval_list f xs st' of (vs, st'') \<Rightarrow> (v # vs, st'')))"
| "eval_fields f [] st = ([], st)"
| "eval_fields f ((k, x) # kvs) st =
     (case eval f x st of
        (v, st') \<Rightarrow> (case eval_fields f kvs st' of (fs, st'') \<Rightarrow> ((k, v) # fs, st'')))"




section \<open>Properties of the configuration modules\<close>

text \<open>
  C6: the site configuration declares exactly three things, the site URL, the base path
  and the list of integrations, in the object literal that is the only argument of
  \<^verbatim>\<open>defineConfig\<close>; the integrations list has one element, the call of the function
  imported from the Tailwind integration package.
\<close>

theorem site_config_three_declarations:
  "astro_config = Call ''defineConfig'' [site_options]
   \<and> keys site_options = [''site'', ''base'', ''integrations'']
   \<and> distinct (keys site_options)
   \<and> field ''integrations'' site_options = Some (Arr [Call ''tailwind'' []])
   \<and> map_of astro_imports ''tailwind'' = Some ''@astrojs/tailwind''"
  by (simp add: astro_config_def site_options_def astro_imports_def)

text \<open>
  C9: every value of the tui palette is a seven-character colour, a hash sign and six
  lowercase hexadecimal digits; the palette has the six tokens bg, fg, accent, dim,
  border and selection, and their values are pairwise distinct.
\<close>

theorem tui_palette_hex_distinct:
  "map fst tui_palette = [''bg'', ''fg'', ''accent'', ''dim'', ''border'', ''selection'']
   \<and> list_all hex_color (map snd tui_palette)
   \<and> list_all (\<lambda>v. case v of Str s \<Rightarrow> length s = 7 | _ \<Rightarrow> False) (map snd tui_palette)
   \<and> distinct (map snd tui_palette)"
  by (simp add: tui_palette_def tailwind_config_def lower_hex_digit_def)

text \<open>
  C10: the mono font stack is not empty and its last element is the generic family
  monospace, so every other family of the stack stands before it.
\<close>

theorem mono_stack_ends_generic:
  \<open>mono_stack \<noteq> []
   \<and> last mono_stack = ''monospace''
   \<and> mono_stack = [''"JetBrains Mono"'', ''"Fira Code"''] @ [''monospace'']\<close>
  by (simp add: mono_stack_def tailwind_config_def strings_of_def)

text \<open>
  C2: the configured site URL is a syntactically valid absolute URL, and the configured
  base path is a syntactically valid path prefix.
\<close>

theorem site_url_and_base_path_valid:
  "siteURL = Some ''https://lab176344.github.io''
   \<and> basePath = Some ''/''
   \<and> (case siteURL of None \<Rightarrow> False | Some u \<Rightarrow> valid_absolute_url u)
   \<and> (case basePath of None \<Rightarrow> False | Some p \<Rightarrow> valid_base_path p)"
  by code_simp

text \<open>
  C5: the style configuration has exactly the declared shape. Its keys are content, theme
  and plugins, the theme holds one extension with colours and font families, and the
  record read from it has an ordered sequence of content glob patterns, a mapping from
  colour token names to colour values, a mapping from font family names to ordered
  sequences of font names, and a set of plugins that contains the typography plugin.
\<close>

theorem theme_config_shape:
  \<open>keys tailwind_config = [''content'', ''theme'', ''plugins'']
   \<and> map_option keys (at_path [''theme''] tailwind_config) = Some [''extend'']
   \<and> map_option keys (at_path [''theme'', ''extend''] tailwind_config)
       = Some [''colors'', ''fontFamily'']
   \<and> (case theme_of tailwind_config of
        None \<Rightarrow> False
      | Some t \<Rightarrow>
          contentGlobs t = [''./src/**/*.{astro,html,js,jsx,md,mdx,svelte,ts,tsx,vue}'']
          \<and> colorTokens t =
              map_of [(''tui-bg'', ''#1a1b26''), (''tui-fg'', ''#a9b1d6''),
                      (''tui-accent'', ''#9ece6a''), (''tui-dim'', ''#565f89''),
                      (''tui-border'', ''#414868''), (''tui-selection'', ''#33467c'')]
          \<and> fontTokens t =
              map_of [(''mono'', [''"JetBrains Mono"'', ''"Fira Code"'', ''monospace''])]
          \<and> plugins t = {typography_plugin}
          \<and> typography_plugin \<in> plugins t)\<close>
  by (simp add: tailwind_config_def theme_of_def strings_of_def typography_plugin_def)

text \<open>
  C3: every glob pattern of the content list matches a file of the repository whose
  extension is one of those the pattern lists; the single pattern of the list matches
  the Markdown document \<^verbatim>\<open>src/content/blog/big-query/index.md\<close>.
\<close>

theorem content_globs_match_files:
  \<open>content_globs = [''./src/**/*.{astro,html,js,jsx,md,mdx,svelte,ts,tsx,vue}'']
   \<and> list_all (\<lambda>p. list_ex (\<lambda>f. glob_match p f
                                 \<and> extension f \<in> set (map extension (brace_expand p)))
                        repository_files)
        content_globs
   \<and> ''src/content/blog/big-query/index.md'' \<in> set repository_files
   \<and> glob_match ''./src/**/*.{astro,html,js,jsx,md,mdx,svelte,ts,tsx,vue}''
        ''src/content/blog/big-query/index.md''\<close>
  by code_simp

subsection \<open>Evaluation and the state of the build\<close>







section \<open>Properties of the content document\<close>

lemma split_index_md:
  "split_document index_md = Some (take 4 (drop 1 index_md_head), index_md_text)"
  by (simp add: split_document_def index_md_def index_md_head_def)

lemma body_index_md: "body index_md = index_md_text"
  by (simp add: body_def split_index_md)

text \<open>
  C1: the front-matter of the document has every required field with its type: title
  and description are strings, the publish date parses as a calendar date that exists,
  and the tags are pairwise distinct strings of positive length.
\<close>

theorem front_matter_fields_typed:
  \<open>(case parse_front_matter index_md of
      None \<Rightarrow> False
    | Some fm \<Rightarrow>
        title fm = ''A Guide to BigQuery Optimisation: Performance, Cost, and Architecture''
        \<and> description fm = ''An overview of BigQuery architecture, storage strategies, and query optimisation techniques based on real-world case studies.''
        \<and> pubDate fm = (2026, 2, 13) \<and> valid_date (pubDate fm)
        \<and> tags fm = [''big-query'', ''gcp'', ''data-engineering'', ''sql-optimisation'']
        \<and> distinct (tags fm) \<and> list_all (\<lambda>t. 0 < length t) (tags fm))\<close>
  by (simp add: parse_front_matter_def split_index_md index_md_head_def parse_field_def trim_def
      is_space_def unquote_def parse_flow_seq_def parse_date_def number_of_def is_digit_def
      digit_val_def days_in_month_def leap_year_def)

subsection \<open>The body\<close>

lemma fences_index_md_text: "fences_balanced index_md_text"
  by code_simp

lemma events_index_md_text:
  "fence_events index_md_text =
     [Opening, Closing, Opening, Closing, Opening, Closing, Opening, Closing,
      Opening, Closing, Opening, Closing, Opening, Closing]"
  by code_simp

lemma tables_index_md_text:
  "(case tables index_md_text of
      [t] \<Rightarrow> valid_table t \<and> map length t = [3, 3, 3, 3, 3, 3, 3]
    | _ \<Rightarrow> False)"
  by code_simp

text \<open>
  C4: the body of the document is well-formed Markdown. Every fenced code block that
  is opened is closed: the scan of the body ends outside a block, the fourteen fence
  lines alternate between opening and closing, and their number is even. The body has
  one table; it has a header row, a delimiter row and five more rows, and every row
  has the three cells of the header.
\<close>

theorem body_markdown_well_formed:
  "fences_balanced (body index_md)
   \<and> fence_events (body index_md) =
       [Opening, Closing, Opening, Closing, Opening, Closing, Opening, Closing,
        Opening, Closing, Opening, Closing, Opening, Closing]
   \<and> even (length (fence_events (body index_md)))
   \<and> (case tables (body index_md) of
        [t] \<Rightarrow> valid_table t \<and> map length t = [3, 3, 3, 3, 3, 3, 3]
      | _ \<Rightarrow> False)"
  using fences_index_md_text tables_index_md_text
  by (simp add: body_index_md events_index_md_text)

end
